theory Spec2Isabelle
  imports Complex_Main
begin

section \<open>Text\<close>

text \<open>
  Python strings are modelled as \<open>string\<close> holding the UTF-8 bytes of the text. The
  literals of the source that leave ASCII are written through \<open>utf8s\<close>, which
  encodes a list of code points.
\<close>

definition utf8 :: "nat \<Rightarrow> string" where
  "utf8 cp =
     (if cp < 0x80 then [char_of cp]
      else if cp < 0x800 then [char_of (0xC0 + cp div 64), char_of (0x80 + cp mod 64)]
      else if cp < 0x10000 then
        [char_of (0xE0 + cp div 4096), char_of (0x80 + (cp div 64) mod 64),
         char_of (0x80 + cp mod 64)]
      else
        [char_of (0xF0 + cp div 262144), char_of (0x80 + (cp div 4096) mod 64),
         char_of (0x80 + (cp div 64) mod 64), char_of (0x80 + cp mod 64)])"

definition utf8s :: "nat list \<Rightarrow> string" where
  "utf8s cps = concat (map utf8 cps)"

text \<open>\<open>str(n)\<close> for a Python integer: decimal digits, with a minus sign below zero.\<close>

fun str_nat :: "nat \<Rightarrow> string" where
  "str_nat n = (if n < 10 then [char_of (48 + n)] else str_nat (n div 10) @ [char_of (48 + n mod 10)])"

definition str_int :: "int \<Rightarrow> string" where
  "str_int i = (if i < 0 then CHR ''-'' # str_nat (nat (- i)) else str_nat (nat i))"

text \<open>\<open>s.endswith(suf)\<close>\<close>

definition endswith :: "string \<Rightarrow> string \<Rightarrow> bool" where
  "endswith s suf \<longleftrightarrow> length suf \<le> length s \<and> drop (length s - length suf) s = suf"

text \<open>\<open>os.path.join(a, b)\<close> and \<open>os.path.basename(p)\<close> on POSIX, for a relative \<open>b\<close>.\<close>

definition path_join :: "string \<Rightarrow> string \<Rightarrow> string" where
  "path_join a b = (if a = [] \<or> last a = CHR ''/'' then a @ b else a @ ''/'' @ b)"

definition basename :: "string \<Rightarrow> string" where
  "basename p = rev (takeWhile (\<lambda>c. c \<noteq> CHR ''/'') (rev p))"

section \<open>The library functions the report generator calls\<close>

text \<open>
  \<open>int()\<close>, \<open>float()\<close>, float addition and the format specifications \<open>:.2f\<close> and
  \<open>:.3f\<close> belong to the Python runtime. They are parameters of the model, so that
  every theorem below holds whatever they compute; \<open>'f\<close> is the type of floats.
  A conversion that raises \<open>ValueError\<close> returns \<open>Inl\<close> of the exception's text.
\<close>

record 'f pylib =
  py_int :: "string \<Rightarrow> string + int"
  py_float :: "string \<Rightarrow> string + 'f"
  f_zero :: 'f
  f_add :: "'f \<Rightarrow> 'f \<Rightarrow> 'f"
  fmt_2f :: "'f \<Rightarrow> string"
  fmt_3f :: "'f \<Rightarrow> string"

section \<open>XML elements (\<open>xml.etree.ElementTree\<close>)\<close>

datatype element = Element (tag: string) (attrib: "(string \<times> string) list") (children: "element list")

text \<open>\<open>e.get(key)\<close>, \<open>e.find(tag)\<close> (the first direct child with that tag, or None) and
  \<open>e.findall(tag)\<close> (all of them, in document order).\<close>

definition get :: "element \<Rightarrow> string \<Rightarrow> string option" where
  "get e key = map_of (attrib e) key"

definition find_child :: "element \<Rightarrow> string \<Rightarrow> element option" where
  "find_child e t = List.find (\<lambda>c. tag c = t) (children e)"

definition findall :: "element \<Rightarrow> string \<Rightarrow> element list" where
  "findall e t = filter (\<lambda>c. tag c = t) (children e)"

text \<open>\<open>e.get(key, '')\<close>, \<open>int(e.get(key, 0))\<close> and \<open>float(e.get(key, 0))\<close>.\<close>

definition get_str :: "element \<Rightarrow> string \<Rightarrow> string" where
  "get_str e key = (case get e key of None \<Rightarrow> [] | Some s \<Rightarrow> s)"

definition get_int :: "'f pylib \<Rightarrow> element \<Rightarrow> string \<Rightarrow> string + int" where
  "get_int L e key = (case get e key of None \<Rightarrow> Inr 0 | Some s \<Rightarrow> py_int L s)"

definition get_float :: "'f pylib \<Rightarrow> element \<Rightarrow> string \<Rightarrow> string + 'f" where
  "get_float L e key = (case get e key of None \<Rightarrow> Inr (f_zero L) | Some s \<Rightarrow> py_float L s)"

section \<open>\<open>scripts/generate_test_report.py\<close>: parsing\<close>

text \<open>The dictionaries built by \<open>parse_xml_file\<close>. The status is the string the source
  stores: \<open>'PASS'\<close>, \<open>'FAIL'\<close> or \<open>'ERROR'\<close>.\<close>

record 'f test_case =
  name :: string
  classname :: string
  time :: 'f
  status :: string
  message :: string

record 'f suite_result =
  s_name :: string
  tests :: int
  failures :: int
  errors :: int
  s_time :: 'f
  test_cases :: "'f test_case list"

text \<open>
  Statements in sequence inside a \<open>try\<close>: the first exception (\<open>Inl\<close>) ends the
  sequence.
\<close>

definition and_then :: "'e + 'a \<Rightarrow> ('a \<Rightarrow> 'e + 'b) \<Rightarrow> 'e + 'b" where
  "and_then r k = (case r of Inl exn \<Rightarrow> Inl exn | Inr v \<Rightarrow> k v)"

text \<open>
  One pass of the loop over \<open>testcase\<close> elements (lines 30 to 52), given the value the
  conversion of the case's \<open>time\<close> attribute produced.
\<close>

definition case_dict :: "element \<Rightarrow> 'f \<Rightarrow> 'f test_case" where
  "case_dict test_case t =
     (let status0 = ''PASS'';
          failure_msg0 = [];
          failure = find_child test_case ''failure'';
          (status1, failure_msg1) =
             (case failure of None \<Rightarrow> (status0, failure_msg0)
              | Some f \<Rightarrow> (''FAIL'', get_str f ''message''));
          error = find_child test_case ''error'';
          (status2, failure_msg2) =
             (case error of None \<Rightarrow> (status1, failure_msg1)
              | Some e \<Rightarrow> (''ERROR'', get_str e ''message''))
      in \<lparr>name = get_str test_case ''name'',
          classname = get_str test_case ''classname'',
          time = t,
          status = status2,
          message = failure_msg2\<rparr>)"

text \<open>
  The loop itself. The source has one local variable \<open>time\<close>: line 26 sets it from the
  suite, line 32 assigns it again in every pass, and line 59 reads it after the loop.
  The variable is therefore part of the loop's state. A \<open>float()\<close> that raises leaves
  the loop with the exception.
\<close>

fun cases_loop :: "'f pylib \<Rightarrow> element list \<Rightarrow> 'f \<Rightarrow> 'f test_case list \<Rightarrow> string + ('f \<times> 'f test_case list)" where
  "cases_loop L [] time_var acc = Inr (time_var, acc)"
| "cases_loop L (test_case # rest) time_var acc =
     and_then (get_float L test_case ''time'') (\<lambda>t.
       cases_loop L rest t (acc @ [case_dict test_case t]))"

text \<open>
  The body of the \<open>try\<close> of \<open>parse_xml_file\<close>, from the root element on: \<open>Inl\<close> is
  an exception, \<open>Inr None\<close> the early \<open>return None\<close> of line 21.
\<close>

definition parse_root :: "'f pylib \<Rightarrow> string \<Rightarrow> element \<Rightarrow> string + 'f suite_result option" where
  "parse_root L xml_file root_el =
     (case find_child root_el ''testsuite'' of
        None \<Rightarrow> Inr None
      | Some test_suite \<Rightarrow>
          and_then (get_int L test_suite ''tests'') (\<lambda>n_tests.
          and_then (get_int L test_suite ''failures'') (\<lambda>n_failures.
          and_then (get_int L test_suite ''errors'') (\<lambda>n_errors.
          and_then (get_float L test_suite ''time'') (\<lambda>time0.
          and_then (cases_loop L (findall test_suite ''testcase'') time0 []) (\<lambda>(time_var, cases).
            Inr (Some \<lparr>s_name = (case get test_suite ''name'' of None \<Rightarrow> basename xml_file | Some s \<Rightarrow> s),
                       tests = n_tests,
                       failures = n_failures,
                       errors = n_errors,
                       s_time = time_var,
                       test_cases = cases\<rparr>)))))))"

text \<open>
  \<open>parse_xml_file\<close>. Its first argument after the library is what \<open>ET.parse\<close> does
  on the file: it raises (\<open>Inl\<close> of the exception's text) or gives the root element.
  The result is the line printed, if any, and the value returned.
\<close>

definition parse_xml_file :: "'f pylib \<Rightarrow> (string + element) \<Rightarrow> string \<Rightarrow> string list \<times> 'f suite_result option" where
  "parse_xml_file L parsed xml_file =
     (case and_then parsed (parse_root L xml_file) of
        Inl exn \<Rightarrow> ([''Error parsing '' @ xml_file @ '': '' @ exn], None)
      | Inr r \<Rightarrow> ([], r))"

section \<open>\<open>scripts/generate_test_report.py\<close>: the report\<close>

text \<open>
  What the report generator sees of the outside, and what it leaves there:
  \<open>listdir\<close> gives the names in a directory (None when the path is no directory),
  \<open>et_parse\<close> what \<open>ET.parse\<close> does on a path, \<open>now_str\<close> the formatted
  \<open>datetime.now()\<close>; \<open>printed\<close> collects the lines printed and \<open>written\<close> the
  files written with their content. Opening the output file for writing is taken to
  succeed.
\<close>

record world =
  listdir :: "string \<Rightarrow> string list option"
  et_parse :: "string \<Rightarrow> string + element"
  now_str :: string
  printed :: "string list"
  written :: "string \<rightharpoonup> string"

definition print :: "string \<Rightarrow> world \<Rightarrow> world" where
  "print line w = w\<lparr>printed := printed w @ [line]\<rparr>"

text \<open>
  \<open>glob.glob(os.path.join(results_dir, '*.xml'))\<close>: the names of the directory that end
  in \<open>.xml\<close> and do not start with a dot (which \<open>*\<close> never matches), each joined to
  the directory, in the order of the listing; nothing when there is no such directory.
  The directory name is taken to hold none of the characters \<open>*\<close>, \<open>?\<close>, \<open>[\<close>.
\<close>

definition glob_xml :: "world \<Rightarrow> string \<Rightarrow> string list" where
  "glob_xml w results_dir =
     (case listdir w results_dir of
        None \<Rightarrow> []
      | Some names \<Rightarrow>
          map (path_join results_dir)
            (filter (\<lambda>n. endswith n ''.xml'' \<and> \<not> (n \<noteq> [] \<and> hd n = CHR ''.'')) names))"

text \<open>The pieces of the document, in the order of the source (lines 92 to 271).\<close>

text \<open>The text of lines 92 to 194, before the first replacement field.\<close>

definition html_prologue :: string where
  \<open>html_prologue =
     ''<!DOCTYPE html>
<html lang="zh-CN">
<head>
    <meta charset="UTF-8">
    <meta name="viewport" content="width=device-width, initial-scale=1.0">
    <title>Falcon '' @ utf8s [0x4E0B, 0x8F7D, 0x5668] @ '' - '' @ utf8s [0x6D4B, 0x8BD5, 0x62A5, 0x544A] @ ''</title>
    <style>
        body {
            font-family: Arial, sans-serif;
            margin: 0;
            padding: 20px;
            background-color: #f5f5f5;
        }
        .container {
            max-width: 1200px;
            margin: 0 auto;
            background-color: white;
            padding: 20px;
            border-radius: 8px;
            box-shadow: 0 2px 4px rgba(0,0,0,0.1);
        }
        h1 {
            color: #333;
            border-bottom: 2px solid #4CAF50;
            padding-bottom: 10px;
        }
        .summary {
            display: flex;
            justify-content: space-between;
            margin: 20px 0;
            padding: 15px;
            background-color: #f9f9f9;
            border-radius: 5px;
        }
        .summary-item {
            text-align: center;
        }
        .summary-value {
            font-size: 24px;
            font-weight: bold;
        }
        .summary-label {
            color: #666;
            font-size: 14px;
        }
        .pass { color: #4CAF50; }
        .fail { color: #f44336; }
        .error { color: #ff9800; }

        table {
            width: 100%;
            border-collapse: collapse;
            margin: 20px 0;
        }
        th, td {
            padding: 12px;
            text-align: left;
            border-bottom: 1px solid #ddd;
        }
        th {
            background-color: #4CAF50;
            color: white;
        }
        tr:hover {
            background-color: #f5f5f5;
        }
        .status-pass { color: #4CAF50; font-weight: bold; }
        .status-fail { color: #f44336; font-weight: bold; }
        .status-error { color: #ff9800; font-weight: bold; }

        .test-details {
            margin-top: 20px;
        }
        .test-case {
            margin: 10px 0;
            padding: 10px;
            border-left: 4px solid #ddd;
            background-color: #fafafa;
        }
        .test-case.fail {
            border-left-color: #f44336;
            background-color: #ffebee;
        }
        .test-case.error {
            border-left-color: #ff9800;
            background-color: #fff3e0;
        }

        .timestamp {
            color: #999;
            font-size: 12px;
            text-align: right;
            margin-top: 20px;
        }
    </style>
</head>
<body>
    <div class="container">
        <h1>'' @ utf8s [0x1F985] @ '' Falcon '' @ utf8s [0x4E0B, 0x8F7D, 0x5668] @ '' - '' @ utf8s [0x6D4B, 0x8BD5, 0x62A5, 0x544A] @ ''</h1>

        <div class="summary">
            <div class="summary-item">
                <div class="summary-value">''\<close>

text \<open>The f-string of lines 92 to 227 as a function of the texts of its five replacement
  fields, and the f-string with the fields the source gives it.\<close>

definition summary_html :: "string \<Rightarrow> string \<Rightarrow> string \<Rightarrow> string \<Rightarrow> string \<Rightarrow> string" where
  \<open>summary_html f_tests f_passed f_failures f_errors f_time =
     html_prologue @
     f_tests @
     ''</div>
                <div class="summary-label">'' @ utf8s [0x603B, 0x6D4B, 0x8BD5, 0x6570] @ ''</div>
            </div>
            <div class="summary-item">
                <div class="summary-value pass">'' @
     f_passed @
     ''</div>
                <div class="summary-label">'' @ utf8s [0x901A, 0x8FC7] @ ''</div>
            </div>
            <div class="summary-item">
                <div class="summary-value fail">'' @
     f_failures @
     ''</div>
                <div class="summary-label">'' @ utf8s [0x5931, 0x8D25] @ ''</div>
            </div>
            <div class="summary-item">
                <div class="summary-value error">'' @
     f_errors @
     ''</div>
                <div class="summary-label">'' @ utf8s [0x9519, 0x8BEF] @ ''</div>
            </div>
            <div class="summary-item">
                <div class="summary-value">'' @
     f_time @
     ''s</div>
                <div class="summary-label">'' @ utf8s [0x603B, 0x8017, 0x65F6] @ ''</div>
            </div>
        </div>

        <h2>'' @ utf8s [0x1F4CA] @ '' '' @ utf8s [0x6D4B, 0x8BD5, 0x5957, 0x4EF6, 0x8BE6, 0x60C5] @ ''</h2>
        <table>
            <thead>
                <tr>
                    <th>'' @ utf8s [0x6D4B, 0x8BD5, 0x5957, 0x4EF6] @ ''</th>
                    <th>'' @ utf8s [0x6D4B, 0x8BD5, 0x6570] @ ''</th>
                    <th>'' @ utf8s [0x901A, 0x8FC7] @ ''</th>
                    <th>'' @ utf8s [0x5931, 0x8D25] @ ''</th>
                    <th>'' @ utf8s [0x9519, 0x8BEF] @ ''</th>
                    <th>'' @ utf8s [0x8017, 0x65F6] @ ''</th>
                </tr>
            </thead>
            <tbody>''\<close>

definition html_head :: "'f pylib \<Rightarrow> int \<Rightarrow> int \<Rightarrow> int \<Rightarrow> 'f \<Rightarrow> string" where
  "html_head L total_tests total_failures total_errors total_time =
     summary_html (str_int total_tests) (str_int (total_tests - total_failures - total_errors))
       (str_int total_failures) (str_int total_errors) (fmt_2f L total_time)"

text \<open>The f-string of lines 231 to 239, and the row of one result (lines 230 to 239).\<close>

definition row_html :: "string \<Rightarrow> string \<Rightarrow> string \<Rightarrow> string \<Rightarrow> string \<Rightarrow> string \<Rightarrow> string" where
  \<open>row_html f_name f_tests f_passed f_failures f_errors f_time =
     ''
                <tr>
                    <td>'' @
     f_name @
     ''</td>
                    <td>'' @
     f_tests @
     ''</td>
                    <td class="pass">'' @
     f_passed @
     ''</td>
                    <td class="fail">'' @
     f_failures @
     ''</td>
                    <td class="error">'' @
     f_errors @
     ''</td>
                    <td>'' @
     f_time @
     ''s</td>
                </tr>''\<close>

definition suite_row :: "'f pylib \<Rightarrow> 'f suite_result \<Rightarrow> string" where
  "suite_row L result =
     (let passed = tests result - failures result - errors result
      in row_html (s_name result) (str_int (tests result)) (str_int passed)
           (str_int (failures result)) (str_int (errors result)) (fmt_2f L (s_time result)))"

text \<open>The text of lines 241 to 246.\<close>

definition html_mid :: string where
  \<open>html_mid =
     ''
            </tbody>
        </table>

        <h2>'' @ utf8s [0x1F4DD] @ '' '' @ utf8s [0x6D4B, 0x8BD5, 0x8BE6, 0x60C5] @ ''</h2>
        <div class="test-details">''\<close>

text \<open>The f-string of line 251.\<close>

definition suite_heading :: "'f suite_result \<Rightarrow> string" where
  \<open>suite_heading result = ''<h3>'' @
     s_name result @
     ''</h3>''\<close>

text \<open>The f-string of lines 255 to 261 as a function of its fields; the nested f-string
  of line 260; and the entry of one case (lines 254 to 261).\<close>

definition case_html :: "string \<Rightarrow> string \<Rightarrow> string \<Rightarrow> string \<Rightarrow> string \<Rightarrow> string \<Rightarrow> string" where
  \<open>case_html css_class f_classname f_name f_status f_time f_message =
     ''
                    <div class="test-case '' @
     css_class @
     ''">
                        <div><strong>'' @ utf8s [0x6D4B, 0x8BD5] @ '':</strong> '' @
     f_classname @
     ''.'' @
     f_name @
     ''</div>
                        <div><strong>'' @ utf8s [0x72B6, 0x6001] @ '':</strong> <span class="status-'' @
     css_class @
     ''">'' @
     f_status @
     ''</span></div>
                        <div><strong>'' @ utf8s [0x8017, 0x65F6] @ '':</strong> '' @
     f_time @
     ''s</div>
                        '' @
     f_message @
     ''
                    </div>''\<close>

definition message_html :: "string \<Rightarrow> string" where
  \<open>message_html msg =
     (if msg \<noteq> [] then ''<div><strong>'' @ utf8s [0x9519, 0x8BEF, 0x4FE1, 0x606F] @ '':</strong> <pre>'' @ msg @ ''</pre></div>'' else [])\<close>

definition case_div :: "'f pylib \<Rightarrow> 'f test_case \<Rightarrow> string" where
  "case_div L test_case =
     (let css_class = (if status test_case = ''FAIL'' then ''fail'' else ''error'')
      in case_html css_class (classname test_case) (name test_case) (status test_case)
           (fmt_3f L (time test_case)) (message_html (message test_case)))"

text \<open>The f-string of lines 263 to 271, given the formatted time of the call.\<close>

definition html_tail :: "string \<Rightarrow> string" where
  \<open>html_tail now =
     ''
        </div>

        <div class="timestamp">
            '' @ utf8s [0x62A5, 0x544A, 0x751F, 0x6210, 0x65F6, 0x95F4] @ '': '' @
     now @
     ''
        </div>
    </div>
</body>
</html>''\<close>

text \<open>The state of the loop of lines 82 to 89, and the loop.\<close>

record 'f totals =
  all_results :: "'f suite_result list"
  total_tests :: int
  total_failures :: int
  total_errors :: int
  total_time :: 'f

fun parse_loop :: "'f pylib \<Rightarrow> string list \<Rightarrow> world \<times> 'f totals \<Rightarrow> world \<times> 'f totals" where
  "parse_loop L [] (w, acc) = (w, acc)"
| "parse_loop L (xml_file # rest) (w, acc) =
     (let (lines, result) = parse_xml_file L (et_parse w xml_file) xml_file;
          w' = w\<lparr>printed := printed w @ lines\<rparr>
      in case result of
           None \<Rightarrow> parse_loop L rest (w', acc)
         | Some r \<Rightarrow>
             parse_loop L rest
               (w', \<lparr>all_results = all_results acc @ [r],
                     total_tests = total_tests acc + tests r,
                     total_failures = total_failures acc + failures r,
                     total_errors = total_errors acc + errors r,
                     total_time = f_add L (total_time acc) (s_time r)\<rparr>))"

text \<open>The loop of lines 229 to 239 appends one table row for each result.\<close>

fun rows_loop :: "'f pylib \<Rightarrow> 'f suite_result list \<Rightarrow> string \<Rightarrow> string" where
  "rows_loop L [] html_content = html_content"
| "rows_loop L (result # rest) html_content = rows_loop L rest (html_content @ suite_row L result)"

text \<open>The loops of lines 249 to 261: the inner one over the cases of a suite, the
  outer one over the results.\<close>

fun case_divs_loop :: "'f pylib \<Rightarrow> 'f test_case list \<Rightarrow> string \<Rightarrow> string" where
  "case_divs_loop L [] html_content = html_content"
| "case_divs_loop L (test_case # rest) html_content =
     (if status test_case \<noteq> ''PASS''
      then case_divs_loop L rest (html_content @ case_div L test_case)
      else case_divs_loop L rest html_content)"

fun details_loop :: "'f pylib \<Rightarrow> 'f suite_result list \<Rightarrow> string \<Rightarrow> string" where
  "details_loop L [] html_content = html_content"
| "details_loop L (result # rest) html_content =
     (if failures result > 0 \<or> errors result > 0
      then details_loop L rest
             (case_divs_loop L (test_cases result) (html_content @ suite_heading result))
      else details_loop L rest html_content)"

text \<open>\<open>generate_html_report\<close>: the world after the call (the function returns nothing).\<close>

definition generate_html_report :: "'f pylib \<Rightarrow> world \<Rightarrow> string \<Rightarrow> string \<Rightarrow> world" where
  "generate_html_report L w results_dir output_file =
     (let xml_files = glob_xml w results_dir
      in if xml_files = [] then print (''No XML files found in '' @ results_dir) w
         else
           let (w1, acc) = parse_loop L xml_files
                  (w, \<lparr>all_results = [], total_tests = 0, total_failures = 0, total_errors = 0,
                        total_time = f_zero L\<rparr>);
               html0 = html_head L (total_tests acc) (total_failures acc) (total_errors acc) (total_time acc);
               html1 = rows_loop L (all_results acc) html0;
               html2 = html1 @ html_mid;
               html3 = details_loop L (all_results acc) html2;
               html4 = html3 @ html_tail (now_str w1);
               w2 = w1\<lparr>written := (written w1)(output_file \<mapsto> html4)\<rparr>
           in print (''HTML'' @ utf8s [0x62A5, 0x544A, 0x5DF2, 0x751F, 0x6210] @ '': '' @ output_file) w2)"


section \<open>\<open>test_download_integration.py\<close>: the harness\<close>

text \<open>
  How a function of the harness ends: it returns a value, an exception leaves it
  (with the exception's text), or it waits for ever.
\<close>

datatype 'a outcome = Returned 'a | Raised string | Blocked

text \<open>
  What \<open>subprocess.run(cmd, capture_output=True, text=True, timeout=30)\<close> does: it raises
  an exception other than \<open>TimeoutExpired\<close> (the executable cannot be started), it
  raises \<open>TimeoutExpired\<close>, or it returns the exit status with the captured output.
  What \<open>subprocess.Popen(cmd)\<close>, \<open>sleep\<close>, \<open>terminate()\<close> and \<open>wait()\<close> do:
  \<open>Popen\<close> raises, the child exits, or the child never exits and \<open>wait()\<close>, which
  has no timeout, does not return.
\<close>

datatype run_result = Launch_failed string | Timed_out | Completed int string string

datatype popen_result = Popen_failed string | Exited | Never_exits

text \<open>
  The executable is a parameter: for the number of processes launched before, the
  command and the files present, what the launch results in and the files it leaves.
\<close>

type_synonym files = "string \<rightharpoonup> string"

record procs =
  run_proc :: "nat \<Rightarrow> string list \<Rightarrow> files \<Rightarrow> run_result \<times> files"
  popen_proc :: "nat \<Rightarrow> string list \<Rightarrow> files \<Rightarrow> popen_result \<times> files"

text \<open>
  The world of the harness: what \<open>build\<close> is in the directory the harness starts in,
  the base name of that directory, the regular files by their path relative to the
  directory the scenarios run in (with their content, of which \<open>os.path.getsize\<close> is
  the length), the number of processes launched, and the lines printed. The paths the
  scenarios use name regular files whose content can be read as text, so that
  \<open>os.remove\<close> and \<open>read\<close> succeed on them.
\<close>

datatype entry = Directory | Regular

record hworld =
  build :: "entry option"
  cwd_name :: string
  files :: files
  launches :: nat
  out :: "string list"

definition hprint :: "string \<Rightarrow> hworld \<Rightarrow> hworld" where
  "hprint line w = w\<lparr>out := out w @ [line]\<rparr>"

definition run :: "procs \<Rightarrow> string list \<Rightarrow> hworld \<Rightarrow> run_result \<times> hworld" where
  "run P cmd w =
     (let (r, fs) = run_proc P (launches w) cmd (files w)
      in (r, w\<lparr>launches := Suc (launches w),
                 files := (case r of Launch_failed _ \<Rightarrow> files w | _ \<Rightarrow> fs)\<rparr>))"

definition popen_terminate_wait :: "procs \<Rightarrow> string list \<Rightarrow> hworld \<Rightarrow> popen_result \<times> hworld" where
  "popen_terminate_wait P cmd w =
     (let (r, fs) = popen_proc P (launches w) cmd (files w)
      in (r, w\<lparr>launches := Suc (launches w),
                 files := (case r of Popen_failed _ \<Rightarrow> files w | _ \<Rightarrow> fs)\<rparr>))"

text \<open>The \<open>finally\<close> clauses: \<open>if os.path.exists(f): os.remove(f)\<close>.\<close>

definition remove_if_exists :: "string \<Rightarrow> hworld \<Rightarrow> hworld" where
  "remove_if_exists f w = (if files w f \<noteq> None then w\<lparr>files := (files w)(f := None)\<rparr> else w)"

text \<open>\<open>sub in s\<close> on strings, and \<open>f"{s:25}"\<close>.\<close>

fun contains :: "string \<Rightarrow> string \<Rightarrow> bool" where
  "contains [] sub = (sub = [])"
| "contains (c # cs) sub = (take (length sub) (c # cs) = sub \<or> contains cs sub)"

definition pad25 :: "string \<Rightarrow> string" where
  "pad25 s = s @ replicate (25 - length s) CHR '' ''"

text \<open>\<open>test_http_download\<close> (lines 14 to 62).\<close>

definition test_http_download :: "procs \<Rightarrow> hworld \<Rightarrow> bool outcome \<times> hworld" where
  \<open>test_http_download P w0 =
     (let w1 = hprint ''Testing HTTP download...'' w0;
          output_file = ''test_download.json'';
          cmd = [''./bin/falcon-cli'', ''https://httpbin.org/json'', ''-o'', output_file];
          (result, w2) = run P cmd w1;
          (verdict, w3) =
            (case result of
               Timed_out \<Rightarrow> (False, hprint (utf8s [0x274C] @ '' Download timed out'') w2)
             | Launch_failed e \<Rightarrow> (False, hprint (utf8s [0x274C] @ '' Error: '' @ e) w2)
             | Completed returncode stdout stderr \<Rightarrow>
                 if returncode \<noteq> 0
                 then (False,
                       hprint (''STDERR: '' @ stderr)
                         (hprint (''STDOUT: '' @ stdout)
                           (hprint (utf8s [0x274C] @ '' Download failed with exit code '' @ str_int returncode) w2)))
                 else
                   (case files w2 output_file of
                      Some content \<Rightarrow>
                        let file_size = int (length content);
                            w' = hprint (utf8s [0x2705] @ '' Download successful! File size: '' @
                                         str_int file_size @ '' bytes'') w2
                        in if contains content ''"slideshow"''
                           then (True, hprint (utf8s [0x2705] @ '' Content verification passed'') w')
                           else (False, hprint (utf8s [0x274C] @ '' Content verification failed'') w')
                    | None \<Rightarrow> (False, hprint (utf8s [0x274C] @ '' Output file not found'') w2)))
      in (Returned verdict, remove_if_exists output_file w3))\<close>

text \<open>\<open>test_multiple_downloads\<close> (lines 64 to 95): the list, one pass of the loop (lines 77
  to 92), the loop, the function.\<close>

definition urls :: "(string \<times> string) list" where
  "urls = [(''https://httpbin.org/uuid'', ''uuid.json''),
           (''https://httpbin.org/ip'', ''ip.json''),
           (''https://httpbin.org/user-agent'', ''user-agent.json'')]"

definition download_one :: "procs \<Rightarrow> string \<times> string \<Rightarrow> int \<times> hworld \<Rightarrow> int \<times> hworld" where
  "download_one P item st =
     (let (url, filename) = item;
          (success_count, w) = st;
          w1 = hprint (''  Downloading '' @ filename @ ''...'') w;
          cmd = [''./bin/falcon-cli'', url, ''-o'', filename];
          (result, w2) = run P cmd w1;
          (success_count', w3) =
            (case result of
               Completed returncode stdout stderr \<Rightarrow>
                 if returncode = 0 \<and> files w2 filename \<noteq> None
                 then (success_count + 1, hprint (''    '' @ utf8s [0x2705] @ '' '' @ filename) w2)
                 else (success_count, hprint (''    '' @ utf8s [0x274C] @ '' '' @ filename) w2)
             | _ \<Rightarrow> (success_count, hprint (''    '' @ utf8s [0x274C] @ '' '' @ filename) w2))
      in (success_count', remove_if_exists filename w3))"

fun downloads_loop :: "procs \<Rightarrow> (string \<times> string) list \<Rightarrow> int \<times> hworld \<Rightarrow> int \<times> hworld" where
  "downloads_loop P [] st = st"
| "downloads_loop P (item # rest) st = downloads_loop P rest (download_one P item st)"

definition test_multiple_downloads :: "procs \<Rightarrow> hworld \<Rightarrow> bool outcome \<times> hworld" where
  \<open>test_multiple_downloads P w0 =
     (let w1 = hprint ''
Testing multiple downloads...'' w0;
          (success_count, w2) = downloads_loop P urls (0, w1);
          w3 = hprint (''
  Results: '' @ str_int success_count @ ''/'' @ str_int (int (length urls)) @ '' downloads successful'') w2
      in (Returned (success_count = int (length urls)), w3))\<close>

text \<open>\<open>test_resume\<close> (lines 97 to 144). Lines 104 to 112 stand before the \<open>try\<close>.\<close>

definition test_resume :: "procs \<Rightarrow> hworld \<Rightarrow> bool outcome \<times> hworld" where
  \<open>test_resume P w0 =
     (let w1 = hprint ''
Testing resume functionality...'' w0;
          output_file = ''resume_test.bin'';
          cmd = [''./bin/falcon-cli'', ''https://httpbin.org/bytes/1024'', ''-o'', output_file];
          (started, w2) = popen_terminate_wait P cmd w1
      in case started of
           Popen_failed e \<Rightarrow> (Raised e, w2)
         | Never_exits \<Rightarrow> (Blocked, w2)
         | Exited \<Rightarrow>
             let w3 = (case files w2 output_file of
                         Some content \<Rightarrow>
                           hprint (''  Partial download: '' @ str_int (int (length content)) @ '' bytes'') w2
                       | None \<Rightarrow> w2);
                 (result, w4) = run P cmd w3;
                 (verdict, w5) =
                   (case result of
                      Completed returncode stdout stderr \<Rightarrow>
                        if returncode = 0
                        then
                          (case files w4 output_file of
                             Some content \<Rightarrow>
                               let final_size = int (length content);
                                   w' = hprint (''  Final download: '' @ str_int final_size @ '' bytes'') w4
                               in if final_size = 1024
                                  then (True, hprint (''  '' @ utf8s [0x2705] @ '' Resume functionality working'') w')
                                  else (False, hprint (''  '' @ utf8s [0x274C] @ '' Resume functionality failed'') w')
                           | None \<Rightarrow> (False, hprint (''  '' @ utf8s [0x274C] @ '' Resume test failed'') w4))
                        else (False, hprint (''  '' @ utf8s [0x274C] @ '' Resume test failed'') w4)
                    | _ \<Rightarrow> (False, hprint (''  '' @ utf8s [0x274C] @ '' Resume test error'') w4))
             in (Returned verdict, remove_if_exists output_file w5))\<close>

text \<open>
  \<open>main\<close> of the harness (lines 146 to 186), in three parts. Lines 148 to 161: \<open>Inl\<close>
  is the way the harness ends there, \<open>Inr\<close> the world in which the scenarios run.
  \<open>os.chdir\<close> raises when \<open>build\<close> is no directory.
\<close>

definition startup :: "hworld \<Rightarrow> (int outcome \<times> hworld) + hworld" where
  \<open>startup w0 =
     (let w1 = hprint ''=== Falcon Downloader Integration Tests ===
'' w0;
          entered =
            (case build w1 of
               Some Directory \<Rightarrow> Inr w1
             | Some Regular \<Rightarrow> Inl (Raised ''[Errno 20] Not a directory: build'', w1)
             | None \<Rightarrow>
                 if cwd_name w1 \<noteq> ''build''
                 then Inl (Returned 1, hprint ''Error: Please run from project root or build directory'' w1)
                 else Inr w1)
      in case entered of
           Inl r \<Rightarrow> Inl r
         | Inr w2 \<Rightarrow>
             if files w2 ''bin/falcon-cli'' = None
             then Inl (Returned 1,
                       hprint ''Please run 'cmake --build build --target falcon-cli' first''
                         (hprint ''Error: falcon-cli not found in build/bin/'' w2))
             else Inr w2)\<close>

text \<open>A call in a sequence of statements: when it does not return, neither does the sequence.\<close>

definition call :: "'a outcome \<times> hworld \<Rightarrow> ('a \<Rightarrow> hworld \<Rightarrow> 'b outcome \<times> hworld) \<Rightarrow> 'b outcome \<times> hworld" where
  "call r k =
     (case r of
        (Returned v, w) \<Rightarrow> k v w
      | (Raised e, w) \<Rightarrow> (Raised e, w)
      | (Blocked, w) \<Rightarrow> (Blocked, w))"

text \<open>The loop of lines 173 to 177.\<close>

fun summary_loop :: "(string \<times> bool) list \<Rightarrow> int \<times> hworld \<Rightarrow> int \<times> hworld" where
  "summary_loop [] (passed, w) = (passed, w)"
| "summary_loop ((test_name, result) # rest) (passed, w) =
     (let status_text = (if result then utf8s [0x2705] @ '' PASS'' else utf8s [0x274C] @ '' FAIL'');
          w1 = hprint (pad25 test_name @ '' '' @ status_text) w
      in summary_loop rest (if result then passed + 1 else passed, w1))"

text \<open>Lines 163 to 186.\<close>

definition run_tests :: "procs \<Rightarrow> hworld \<Rightarrow> int outcome \<times> hworld" where
  \<open>run_tests P w0 =
     call (test_http_download P w0) (\<lambda>r1 w1.
     call (test_multiple_downloads P w1) (\<lambda>r2 w2.
     call (test_resume P w2) (\<lambda>r3 w3.
       let results = [(''Basic HTTP Download'', r1), (''Multiple Downloads'', r2),
                      (''Resume Functionality'', r3)];
           w4 = hprint ''
=== Test Summary ==='' w3;
           (passed, w5) = summary_loop results (0, w4);
           w6 = hprint (''
Overall: '' @ str_int passed @ ''/'' @ str_int (int (length results)) @ '' tests passed'') w5
       in if passed = int (length results)
          then (Returned 0, hprint (''
'' @ utf8s [0x1F389] @ '' All tests passed!'') w6)
          else (Returned 1, hprint (''
'' @ utf8s [0x26A0, 0xFE0F] @ ''  Some tests failed'') w6))))\<close>

definition test_download_integration_main :: "procs \<Rightarrow> hworld \<Rightarrow> int outcome \<times> hworld" where
  "test_download_integration_main P w = (case startup w of Inl r \<Rightarrow> r | Inr w0 \<Rightarrow> run_tests P w0)"

text \<open>
  The exit status of the process under \<open>sys.exit(main())\<close>: the value returned or given
  to \<open>sys.exit\<close>; 1 when an exception reaches the top level; none while the process
  does not end.
\<close>

definition exit_status :: "int outcome \<Rightarrow> int option" where
  "exit_status r = (case r of Returned n \<Rightarrow> Some n | Raised e \<Rightarrow> Some 1 | Blocked \<Rightarrow> None)"

section \<open>A library instance for the examples\<close>

text \<open>
  An instance of the library parameters on which the examples below are evaluated:
  integers and floats are read from plain decimal literals with an optional sign, a
  float is the exact rational the literal denotes, and \<open>:.2f\<close>, \<open>:.3f\<close> print it
  in fixed point. On the literals used in the examples CPython gives the same values.
\<close>

definition digit_val :: "char \<Rightarrow> nat option" where
  "digit_val c = (let n = (of_char c :: nat) in if 48 \<le> n \<and> n \<le> 57 then Some (n - 48) else None)"

fun digits_val :: "string \<Rightarrow> nat \<Rightarrow> nat option" where
  "digits_val [] acc = Some acc"
| "digits_val (c # cs) acc = (case digit_val c of None \<Rightarrow> None | Some d \<Rightarrow> digits_val cs (10 * acc + d))"

definition dec_nat :: "string \<Rightarrow> nat option" where
  "dec_nat s = (if s = [] then None else digits_val s 0)"

definition quoted :: "string \<Rightarrow> string" where
  "quoted s = [CHR 0x27] @ s @ [CHR 0x27]"

definition unsigned :: "string \<Rightarrow> bool \<times> string" where
  "unsigned s =
     (case s of
        [] \<Rightarrow> (False, [])
      | c # cs \<Rightarrow> if c = CHR ''-'' then (True, cs) else if c = CHR ''+'' then (False, cs) else (False, s))"

definition ex_int :: "string \<Rightarrow> string + int" where
  "ex_int s =
     (let (neg, ds) = unsigned s
      in case dec_nat ds of
           None \<Rightarrow> Inl (''invalid literal for int() with base 10: '' @ quoted s)
         | Some n \<Rightarrow> Inr (if neg then - int n else int n))"

definition ex_float :: "string \<Rightarrow> string + rat" where
  "ex_float s =
     (let (neg, ds) = unsigned s;
          ip = takeWhile (\<lambda>c. c \<noteq> CHR ''.'') ds;
          fp = drop 1 (dropWhile (\<lambda>c. c \<noteq> CHR ''.'') ds)
      in case (dec_nat ip, digits_val fp 0) of
           (Some a, Some b) \<Rightarrow>
             (let v = of_nat a + of_nat b / 10 ^ length fp in Inr (if neg then - v else v))
         | _ \<Rightarrow> Inl (''could not convert string to float: '' @ quoted s))"

definition fixed :: "nat \<Rightarrow> rat \<Rightarrow> string" where
  "fixed k x =
     (let n = nat (round (\<bar>x\<bar> * 10 ^ k));
          fp = str_nat (n mod 10 ^ k)
      in (if x < 0 then ''-'' else []) @ str_nat (n div 10 ^ k) @ ''.'' @
         replicate (k - length fp) CHR ''0'' @ fp)"

definition ex_lib :: "rat pylib" where
  "ex_lib = \<lparr>py_int = ex_int, py_float = ex_float, f_zero = 0, f_add = (+),
             fmt_2f = fixed 2, fmt_3f = fixed 3\<rparr>"

section \<open>Notions used to state the properties\<close>

text \<open>
  The exception, if any, that leaves the \<open>try\<close> of \<open>parse_xml_file\<close> on a file: the
  file is malformed exactly when there is one.
\<close>

definition raised :: "'f pylib \<Rightarrow> world \<Rightarrow> string \<Rightarrow> string option" where
  "raised L w xml_file =
     (case and_then (et_parse w xml_file) (parse_root L xml_file) of Inl exn \<Rightarrow> Some exn | Inr r \<Rightarrow> None)"

text \<open>The results of the files that parse, in order, and the lines logged for the others.\<close>

definition parsed_suites :: "'f pylib \<Rightarrow> world \<Rightarrow> string list \<Rightarrow> 'f suite_result list" where
  "parsed_suites L w xml_files =
     List.map_filter (\<lambda>f. snd (parse_xml_file L (et_parse w f) f)) xml_files"

definition error_lines :: "'f pylib \<Rightarrow> world \<Rightarrow> string list \<Rightarrow> string list" where
  "error_lines L w xml_files =
     List.map_filter (\<lambda>f. map_option (\<lambda>exn. ''Error parsing '' @ f @ '': '' @ exn) (raised L w f)) xml_files"

text \<open>
  The document described by the specification for a list of suites: the summary block
  with the sums of the declared counts and times, one table row for each suite, and
  the detail section, which has a heading for each suite with a positive failure or
  error count, followed by an entry for each of its cases that did not pass.
\<close>

definition detail_section :: "'f pylib \<Rightarrow> 'f suite_result list \<Rightarrow> string" where
  "detail_section L suites =
     concat (map (\<lambda>r. suite_heading r @
                       concat (map (case_div L) (filter (\<lambda>c. status c \<noteq> ''PASS'') (test_cases r))))
                 (filter (\<lambda>r. failures r > 0 \<or> errors r > 0) suites))"

definition report_document :: "'f pylib \<Rightarrow> 'f suite_result list \<Rightarrow> string \<Rightarrow> string" where
  "report_document L suites now =
     html_head L (sum_list (map tests suites)) (sum_list (map failures suites))
       (sum_list (map errors suites)) (foldl (f_add L) (f_zero L) (map s_time suites)) @
     concat (map (suite_row L) suites) @ html_mid @ detail_section L suites @ html_tail now"

section \<open>Example inputs\<close>

text \<open>A results directory \<open>results\<close> with the given entries: each a file name and what
  \<open>ET.parse\<close> does on the file.\<close>

definition ex_world :: "(string \<times> (string + element)) list \<Rightarrow> world" where
  "ex_world entries =
     \<lparr>listdir = (\<lambda>d. if d = ''results'' then Some (map fst entries) else None),
      et_parse = (\<lambda>p. case map_of (map (\<lambda>(n, r). (path_join ''results'' n, r)) entries) p of
                        Some r \<Rightarrow> r | None \<Rightarrow> Inl ''[Errno 2] No such file or directory''),
      now_str = ''2024-01-01 12:00:00'',
      printed = [],
      written = Map.empty\<rparr>"

text \<open>A suite that declares 5.0 seconds, with one case of 1.0 second.\<close>

definition ex_suite :: element where
  "ex_suite =
     Element ''testsuite''
       [(''name'', ''core''), (''tests'', ''1''), (''failures'', ''0''), (''errors'', ''0''), (''time'', ''5.0'')]
       [Element ''testcase'' [(''name'', ''t1''), (''classname'', ''Core''), (''time'', ''1.0'')] []]"

definition ex_doc :: element where
  "ex_doc = Element ''testsuites'' [] [ex_suite]"

text \<open>A case with both markers; a suite that declares more failures than tests, with a
  passing case and that case; a suite whose declared counts are 1 failure and -1 error.\<close>

definition ex_both :: element where
  "ex_both =
     Element ''testcase'' [(''name'', ''t2''), (''classname'', ''Core''), (''time'', ''1.5'')]
       [Element ''failure'' [(''message'', ''expected 1'')] [],
        Element ''error'' [(''message'', ''boom'')] []]"

definition ex_inconsistent :: element where
  "ex_inconsistent =
     Element ''testsuites'' []
       [Element ''testsuite''
          [(''name'', ''net''), (''tests'', ''1''), (''failures'', ''2''), (''errors'', ''0''), (''time'', ''0.5'')]
          [Element ''testcase'' [(''name'', ''t1''), (''classname'', ''Net''), (''time'', ''0.25'')] [],
           ex_both]]"

definition ex_negative :: element where
  "ex_negative =
     Element ''testsuites'' []
       [Element ''testsuite''
          [(''name'', ''core''), (''tests'', ''2''), (''failures'', ''1''), (''errors'', ''-1'')] []]"

text \<open>
  A build directory with the executable present, and two behaviours of the executable:
  one that the system refuses to start (a file without execute permission), and one that
  exits with status 0 after writing its destination, 1024 bytes for the resource of that
  size and a short text that lacks the expected word otherwise.
\<close>

definition ex_hworld :: hworld where
  "ex_hworld = \<lparr>build = Some Directory, cwd_name = ''falcon'',
                 files = [''bin/falcon-cli'' \<mapsto> ''ELF''], launches = 0, out = []\<rparr>"

definition ex_noexec :: procs where
  "ex_noexec =
     \<lparr>run_proc = (\<lambda>n cmd fs. (Launch_failed ''[Errno 13] Permission denied: ./bin/falcon-cli'', fs)),
      popen_proc = (\<lambda>n cmd fs. (Popen_failed ''[Errno 13] Permission denied: ./bin/falcon-cli'', fs))\<rparr>"

definition ex_procs :: procs where
  "ex_procs =
     \<lparr>run_proc = (\<lambda>n cmd fs.
        (Completed 0 [] [],
         fs(last cmd \<mapsto> (if cmd ! 1 = ''https://httpbin.org/bytes/1024''
                            then replicate 1024 CHR ''x'' else ''{}'')))),
      popen_proc = (\<lambda>n cmd fs. (Exited, fs(last cmd \<mapsto> replicate 100 CHR ''x'')))\<rparr>"

section \<open>The loops of the report generator\<close>

lemma rows_loop_eq: "rows_loop L rs html = html @ concat (map (suite_row L) rs)"
  by (induction rs arbitrary: html) simp_all

lemma case_divs_loop_eq:
  "case_divs_loop L cs html = html @ concat (map (case_div L) (filter (\<lambda>c. status c \<noteq> ''PASS'') cs))"
  by (induction cs arbitrary: html) simp_all

lemma details_loop_eq: "details_loop L rs html = html @ detail_section L rs"
  by (induction rs arbitrary: html) (simp_all add: detail_section_def case_divs_loop_eq)

lemma parse_xml_file_printed:
  "fst (parse_xml_file L (et_parse w f) f) =
     (case raised L w f of None \<Rightarrow> [] | Some exn \<Rightarrow> [''Error parsing '' @ f @ '': '' @ exn])"
  by (simp add: parse_xml_file_def raised_def split: sum.splits)

lemma parse_xml_file_raised:
  "raised L w f = Some exn \<Longrightarrow> snd (parse_xml_file L (et_parse w f) f) = None"
  by (simp add: parse_xml_file_def raised_def split: sum.splits)

lemma parse_loop_eq:
  "parse_loop L fs (w, acc) =
     (w\<lparr>printed := printed w @ error_lines L w fs\<rparr>,
      \<lparr>all_results = all_results acc @ parsed_suites L w fs,
       total_tests = total_tests acc + sum_list (map tests (parsed_suites L w fs)),
       total_failures = total_failures acc + sum_list (map failures (parsed_suites L w fs)),
       total_errors = total_errors acc + sum_list (map errors (parsed_suites L w fs)),
       total_time = foldl (f_add L) (total_time acc) (map s_time (parsed_suites L w fs))\<rparr>)"
proof (induction fs arbitrary: w acc)
  case Nil
  show ?case by (simp add: parsed_suites_def error_lines_def map_filter_simps)
next
  case (Cons f fs)
  obtain ls r where pf: "parse_xml_file L (et_parse w f) f = (ls, r)" by (cases "parse_xml_file L (et_parse w f) f")
  have ls: "ls = (case raised L w f of None \<Rightarrow> [] | Some exn \<Rightarrow> [''Error parsing '' @ f @ '': '' @ exn])"
    using parse_xml_file_printed[of L w f] pf by simp
  have inv: "parsed_suites L (w\<lparr>printed := x\<rparr>) fs = parsed_suites L w fs"
       "error_lines L (w\<lparr>printed := x\<rparr>) fs = error_lines L w fs" for x
    by (simp_all add: parsed_suites_def error_lines_def raised_def)
  show ?case
  proof (cases r)
    case None
    then show ?thesis using pf ls Cons.IH inv
      by (simp add: parsed_suites_def error_lines_def map_filter_simps split: option.splits)
  next
    case (Some a)
    then show ?thesis using pf ls Cons.IH inv
      by (simp add: parsed_suites_def error_lines_def map_filter_simps split: option.splits)
  qed
qed

lemma parsed_suites_skip:
  "parsed_suites L w (filter (\<lambda>f. raised L w f = None) fs) = parsed_suites L w fs"
  by (induction fs) (auto simp: parsed_suites_def map_filter_simps parse_xml_file_def raised_def split: sum.splits option.splits)

lemma error_lines_eq:
  "error_lines L w fs =
     map (\<lambda>f. ''Error parsing '' @ f @ '': '' @ the (raised L w f)) (filter (\<lambda>f. raised L w f \<noteq> None) fs)"
  by (induction fs) (auto simp: error_lines_def map_filter_simps split: option.splits)

lemma suite_row_fun:
  "suite_row L =
     (\<lambda>r. row_html (s_name r) (str_int (tests r)) (str_int (tests r - failures r - errors r))
            (str_int (failures r)) (str_int (errors r)) (fmt_2f L (s_time r)))"
  by (rule ext) (simp add: suite_row_def Let_def)

lemma case_div_fun:
  "case_div L =
     (\<lambda>c. case_html (if status c = ''FAIL'' then ''fail'' else ''error'') (classname c) (name c)
            (status c) (fmt_3f L (time c)) (message_html (message c)))"
  by (rule ext) (simp add: case_div_def Let_def)

text \<open>What \<open>generate_html_report\<close> does when there are files, and when there are none.\<close>

lemma generate_html_report_files:
  assumes "glob_xml w d \<noteq> []"
  shows "generate_html_report L w d outf =
     w\<lparr>printed := printed w @ error_lines L w (glob_xml w d) @
                     [''HTML'' @ utf8s [0x62A5, 0x544A, 0x5DF2, 0x751F, 0x6210] @ '': '' @ outf],
        written := (written w)(outf \<mapsto> report_document L (parsed_suites L w (glob_xml w d)) (now_str w))\<rparr>"
  using assms
  by (simp add: generate_html_report_def parse_loop_eq rows_loop_eq details_loop_eq
      report_document_def print_def Let_def)

lemma generate_html_report_no_files:
  assumes "glob_xml w d = []"
  shows "generate_html_report L w d outf = print (''No XML files found in '' @ d) w"
  using assms by (simp add: generate_html_report_def)

section \<open>Elapsed times\<close>

text \<open>
  After the loop over the cases, the variable \<open>time\<close> holds the time of the last case
  whenever there is a case.
\<close>

lemma cases_loop_last_time:
  "cases_loop L cs t0 acc = Inr (t, cases) \<Longrightarrow> cs \<noteq> [] \<Longrightarrow>
   get_float L (last cs) ''time'' = Inr t"
proof (induction cs arbitrary: t0 acc)
  case Nil
  then show ?case by simp
next
  case (Cons c cs)
  from Cons.prems(1) obtain t1 where t1: "get_float L c ''time'' = Inr t1"
    and rest: "cases_loop L cs t1 (acc @ [case_dict c t1]) = Inr (t, cases)"
    by (auto simp: and_then_def split: sum.splits)
  show ?case
  proof (cases "cs = []")
    case True
    then show ?thesis using t1 rest by simp
  next
    case False
    then show ?thesis using Cons.IH [OF rest] by simp
  qed
qed

text \<open>
  Claim C1: the summary's total elapsed time is the sum of the suites' declared
  \<open>time\<close> attributes, and each row shows its suite's declared time, however many case
  entries the artifact has. The code does not do this: for the suite that declares 5.0
  seconds and has one case of 1.0 second, the parsed suite carries 1, and the row and
  the total are formatted from it.
\<close>

theorem suite_time_overwritten_by_last_case:
  "get_float ex_lib ex_suite ''time'' = Inr 5 \<and>
   map_option s_time (snd (parse_xml_file ex_lib (Inr ex_doc) ''results/core.xml'')) = Some 1 \<and>
   map_option (\<lambda>r. fmt_2f ex_lib (s_time r)) (snd (parse_xml_file ex_lib (Inr ex_doc) ''results/core.xml''))
     = Some ''1.00'' \<and>
   total_time (snd (parse_loop ex_lib [''results/core.xml'']
                      (ex_world [(''core.xml'', Inr ex_doc)],
                       \<lparr>all_results = [], total_tests = 0, total_failures = 0, total_errors = 0,
                        total_time = f_zero ex_lib\<rparr>))) = 1"
  by code_simp

section \<open>No input\<close>

text \<open>
  Claim C2, as amended: when the directory has no file with the artifact suffix, the
  reporter prints the no-input line and writes no file.
\<close>

theorem no_report_without_xml_files:
  assumes "glob_xml w d = []"
  shows "printed (generate_html_report L w d outf) = printed w @ [''No XML files found in '' @ d] \<and>
         written (generate_html_report L w d outf) = written w"
  using assms by (simp add: generate_html_report_no_files print_def)

theorem no_report_without_xml_files_witness:
  "glob_xml (ex_world [(''notes.txt'', Inl [])]) ''results'' = [] \<and>
   printed (generate_html_report ex_lib (ex_world [(''notes.txt'', Inl [])]) ''results'' ''report.html'')
     = [''No XML files found in results''] \<and>
   written (generate_html_report ex_lib (ex_world [(''notes.txt'', Inl [])]) ''results'' ''report.html'')
     ''report.html'' = None"
proof -
  have g: "glob_xml (ex_world [(''notes.txt'', Inl [])]) ''results'' = []" by code_simp
  show ?thesis
    using g no_report_without_xml_files [OF g, of ex_lib "''report.html''"]
    by (simp add: ex_world_def)
qed

text \<open>
  Claim C2 as stated also covers a directory whose matching files all fail to parse.
  There the code writes a report: with the single malformed file \<open>bad.xml\<close>, no suite
  is parsed, the error is logged, and the report file exists.
\<close>

theorem report_written_when_all_files_malformed:
  "glob_xml (ex_world [(''bad.xml'', Inl ''syntax error: line 1, column 0'')]) ''results'' = [''results/bad.xml''] \<and>
   snd (parse_xml_file ex_lib (et_parse (ex_world [(''bad.xml'', Inl ''syntax error: line 1, column 0'')]) ''results/bad.xml'')
          ''results/bad.xml'') = None \<and>
   written (generate_html_report ex_lib (ex_world [(''bad.xml'', Inl ''syntax error: line 1, column 0'')])
              ''results'' ''report.html'') ''report.html'' \<noteq> None \<and>
   printed (generate_html_report ex_lib (ex_world [(''bad.xml'', Inl ''syntax error: line 1, column 0'')])
              ''results'' ''report.html'')
     = [''Error parsing results/bad.xml: syntax error: line 1, column 0'',
        ''HTML'' @ utf8s [0x62A5, 0x544A, 0x5DF2, 0x751F, 0x6210] @ '': report.html'']"
proof -
  let ?w = "ex_world [(''bad.xml'', Inl ''syntax error: line 1, column 0'')]"
  have g: "glob_xml ?w ''results'' = [''results/bad.xml'']" by code_simp
  have p: "snd (parse_xml_file ex_lib (et_parse ?w ''results/bad.xml'') ''results/bad.xml'') = None" by code_simp
  have e: "error_lines ex_lib ?w [''results/bad.xml''] = [''Error parsing results/bad.xml: syntax error: line 1, column 0'']"
    by code_simp
  have pr: "printed ?w = []" by (simp add: ex_world_def)
  have ne: "glob_xml ?w ''results'' \<noteq> []" using g by simp
  show ?thesis
    using g p e pr by (simp add: generate_html_report_files [OF ne])
qed




section \<open>Malformed files\<close>

text \<open>
  Claim C5: when the directory has matching files, the report written is the document
  of the suites parsed from the files that are not malformed, so its totals are the
  sums over exactly those suites; every malformed file leaves one logged line, in the
  order of discovery, and the files after it are still read.
\<close>

theorem malformed_files_are_skipped:
  assumes "glob_xml w d \<noteq> []"
  shows "written (generate_html_report L w d outf) outf =
           Some (report_document L
                   (parsed_suites L w (filter (\<lambda>f. raised L w f = None) (glob_xml w d))) (now_str w)) \<and>
         printed (generate_html_report L w d outf) =
           printed w @
           map (\<lambda>f. ''Error parsing '' @ f @ '': '' @ the (raised L w f))
             (filter (\<lambda>f. raised L w f \<noteq> None) (glob_xml w d)) @
           [''HTML'' @ utf8s [0x62A5, 0x544A, 0x5DF2, 0x751F, 0x6210] @ '': '' @ outf]"
  by (simp add: generate_html_report_files [OF assms] parsed_suites_skip error_lines_eq)

text \<open>A directory with one malformed file between two files that parse.\<close>

theorem malformed_files_are_skipped_witness:
  "glob_xml (ex_world [(''core.xml'', Inr ex_doc),
                       (''bad.xml'', Inl ''syntax error: line 1, column 0''),
                       (''net.xml'', Inr ex_inconsistent)]) ''results'' \<noteq> [] \<and>
   written (generate_html_report ex_lib
              (ex_world [(''core.xml'', Inr ex_doc),
                         (''bad.xml'', Inl ''syntax error: line 1, column 0''),
                         (''net.xml'', Inr ex_inconsistent)]) ''results'' ''report.html'') ''report.html'' =
     Some (report_document ex_lib
             (parsed_suites ex_lib (ex_world [(''core.xml'', Inr ex_doc), (''net.xml'', Inr ex_inconsistent)])
                [''results/core.xml'', ''results/net.xml''])
             ''2024-01-01 12:00:00'') \<and>
   printed (generate_html_report ex_lib
              (ex_world [(''core.xml'', Inr ex_doc),
                         (''bad.xml'', Inl ''syntax error: line 1, column 0''),
                         (''net.xml'', Inr ex_inconsistent)]) ''results'' ''report.html'') =
     [''Error parsing results/bad.xml: syntax error: line 1, column 0'',
      ''HTML'' @ utf8s [0x62A5, 0x544A, 0x5DF2, 0x751F, 0x6210] @ '': report.html'']"
proof -
  let ?w = "ex_world [(''core.xml'', Inr ex_doc),
                      (''bad.xml'', Inl ''syntax error: line 1, column 0''),
                      (''net.xml'', Inr ex_inconsistent)]"
  let ?v = "ex_world [(''core.xml'', Inr ex_doc), (''net.xml'', Inr ex_inconsistent)]"
  have g: "glob_xml ?w ''results'' \<noteq> []" by code_simp
  have good: "filter (\<lambda>f. raised ex_lib ?w f = None) (glob_xml ?w ''results'') =
                [''results/core.xml'', ''results/net.xml'']"
    by code_simp
  have bad: "map (\<lambda>f. ''Error parsing '' @ f @ '': '' @ the (raised ex_lib ?w f))
               (filter (\<lambda>f. raised ex_lib ?w f \<noteq> None) (glob_xml ?w ''results'')) =
             [''Error parsing results/bad.xml: syntax error: line 1, column 0'']"
    by code_simp
  have same: "parsed_suites ex_lib ?w [''results/core.xml'', ''results/net.xml''] =
              parsed_suites ex_lib ?v [''results/core.xml'', ''results/net.xml'']"
    by code_simp
  have w: "now_str ?w = ''2024-01-01 12:00:00''" "printed ?w = []"
    by (simp_all add: ex_world_def)
  show ?thesis
    using g malformed_files_are_skipped [OF g, of ex_lib "''report.html''", unfolded good bad same w]
    by simp
qed

section \<open>The table and the detail section\<close>

text \<open>
  Claim C7: in the report written, the passed cell of each row is the text of
  \<open>tests - failures - errors\<close> of that suite, and the passed value of the summary
  block is the same difference of the three totals; both are differences of integers,
  with no clamping.
\<close>

theorem passed_counts_are_plain_differences:
  assumes "glob_xml w d \<noteq> []"
  shows "written (generate_html_report L w d outf) outf =
     Some (let suites = parsed_suites L w (glob_xml w d);
               t = sum_list (map tests suites);
               f = sum_list (map failures suites);
               e = sum_list (map errors suites)
           in summary_html (str_int t) (str_int (t - f - e)) (str_int f) (str_int e)
                (fmt_2f L (foldl (f_add L) (f_zero L) (map s_time suites))) @
              concat (map (\<lambda>r. row_html (s_name r) (str_int (tests r))
                                   (str_int (tests r - failures r - errors r))
                                   (str_int (failures r)) (str_int (errors r)) (fmt_2f L (s_time r)))
                          suites) @
              html_mid @ detail_section L suites @ html_tail (now_str w))"
  by (simp add: generate_html_report_files [OF assms] report_document_def html_head_def
      suite_row_fun Let_def)

text \<open>With 1 test and 2 failures declared, the row and the summary show -1.\<close>

theorem passed_counts_are_plain_differences_witness:
  "glob_xml (ex_world [(''net.xml'', Inr ex_inconsistent)]) ''results'' \<noteq> [] \<and>
   (\<exists>rest. written (generate_html_report ex_lib (ex_world [(''net.xml'', Inr ex_inconsistent)])
                      ''results'' ''report.html'') ''report.html'' =
     Some (summary_html ''1'' ''-1'' ''2'' ''0'' ''1.50'' @
           row_html ''net'' ''1'' ''-1'' ''2'' ''0'' ''1.50'' @ rest))"
proof -
  let ?w = "ex_world [(''net.xml'', Inr ex_inconsistent)]"
  have g: "glob_xml ?w ''results'' \<noteq> []" by code_simp
  have p: "parsed_suites ex_lib ?w (glob_xml ?w ''results'') =
             [\<lparr>s_name = ''net'', tests = 1, failures = 2, errors = 0, s_time = 3 / 2,
               test_cases =
                 [\<lparr>name = ''t1'', classname = ''Net'', time = 1 / 4, status = ''PASS'', message = []\<rparr>,
                  \<lparr>name = ''t2'', classname = ''Core'', time = 3 / 2, status = ''ERROR'', message = ''boom''\<rparr>]\<rparr>]"
    by code_simp
  have s: "str_int 1 = ''1''" "str_int (- 1) = ''-1''" "str_int 2 = ''2''" "str_int 0 = ''0''"
    "fmt_2f ex_lib (3 / 2) = ''1.50''" "f_add ex_lib (f_zero ex_lib) (3 / 2) = 3 / 2"
    by code_simp+
  show ?thesis
    using g passed_counts_are_plain_differences [OF g, of ex_lib "''report.html''"]
    by (simp add: p s)
qed

text \<open>
  Claim C6, as amended: the detail section of the report written has an entry (a
  heading) for a suite exactly when its declared failures are positive or its declared
  errors are positive, in the order of the suites; under the heading it lists exactly
  the cases whose status is not \<open>PASS\<close>, in order, each with its class and name, its
  status, its time in three decimals, and its message when that is not empty.
\<close>

theorem detail_section_entries:
  assumes "glob_xml w d \<noteq> []"
  shows "written (generate_html_report L w d outf) outf =
     Some (let suites = parsed_suites L w (glob_xml w d)
           in html_head L (sum_list (map tests suites)) (sum_list (map failures suites))
                (sum_list (map errors suites)) (foldl (f_add L) (f_zero L) (map s_time suites)) @
              concat (map (suite_row L) suites) @
              html_mid @
              concat (map (\<lambda>r. suite_heading r @
                                concat (map (\<lambda>c. case_html (if status c = ''FAIL'' then ''fail'' else ''error'')
                                                    (classname c) (name c) (status c)
                                                    (fmt_3f L (time c)) (message_html (message c)))
                                          (filter (\<lambda>c. status c \<noteq> ''PASS'') (test_cases r))))
                          (filter (\<lambda>r. failures r > 0 \<or> errors r > 0) suites)) @
              html_tail (now_str w))"
  by (simp add: generate_html_report_files [OF assms] report_document_def detail_section_def
      case_div_fun Let_def)

theorem detail_section_entries_witness:
  "glob_xml (ex_world [(''net.xml'', Inr ex_inconsistent), (''core.xml'', Inr ex_doc)]) ''results'' \<noteq> [] \<and>
   (\<exists>before. written (generate_html_report ex_lib
                       (ex_world [(''net.xml'', Inr ex_inconsistent), (''core.xml'', Inr ex_doc)])
                       ''results'' ''report.html'') ''report.html'' =
     Some (before @ html_mid @ ''<h3>net</h3>'' @
           case_html ''error'' ''Core'' ''t2'' ''ERROR'' ''1.500'' (message_html ''boom'') @
           html_tail ''2024-01-01 12:00:00''))"
proof -
  let ?w = "ex_world [(''net.xml'', Inr ex_inconsistent), (''core.xml'', Inr ex_doc)]"
  have g: "glob_xml ?w ''results'' \<noteq> []" by code_simp
  have p: "parsed_suites ex_lib ?w (glob_xml ?w ''results'') =
             [\<lparr>s_name = ''net'', tests = 1, failures = 2, errors = 0, s_time = 3 / 2,
               test_cases =
                 [\<lparr>name = ''t1'', classname = ''Net'', time = 1 / 4, status = ''PASS'', message = []\<rparr>,
                  \<lparr>name = ''t2'', classname = ''Core'', time = 3 / 2, status = ''ERROR'', message = ''boom''\<rparr>]\<rparr>,
              \<lparr>s_name = ''core'', tests = 1, failures = 0, errors = 0, s_time = 1,
               test_cases =
                 [\<lparr>name = ''t1'', classname = ''Core'', time = 1, status = ''PASS'', message = []\<rparr>]\<rparr>]"
    by code_simp
  have s: "fmt_3f ex_lib (3 / 2) = ''1.500''" by code_simp
  have n: "now_str ?w = ''2024-01-01 12:00:00''" by (simp add: ex_world_def)
  show ?thesis
    using g detail_section_entries [OF g, of ex_lib "''report.html''"]
    by (simp add: p s n suite_heading_def)
qed

text \<open>
  Claim C6 as stated takes the sum of the two counts. With 1 failure and -1 error
  declared the sum is 0, and the suite has an entry.
\<close>

theorem detail_entry_with_zero_sum:
  "snd (parse_xml_file ex_lib (Inr ex_negative) ''results/core.xml'') =
     Some \<lparr>s_name = ''core'', tests = 2, failures = 1, errors = - 1, s_time = 0, test_cases = []\<rparr> \<and>
   \<not> (failures \<lparr>s_name = ''core'', tests = 2, failures = 1, errors = - 1, s_time = 0 :: rat, test_cases = []\<rparr> +
      errors \<lparr>s_name = ''core'', tests = 2, failures = 1, errors = - 1, s_time = 0 :: rat, test_cases = []\<rparr> > 0) \<and>
   details_loop ex_lib
     [\<lparr>s_name = ''core'', tests = 2, failures = 1, errors = - 1, s_time = 0, test_cases = []\<rparr>] [] =
     ''<h3>core</h3>''"
  by code_simp

section \<open>Cases with both markers\<close>

text \<open>
  Claim C10: a case that holds both a failure and an error marker gets the status
  \<open>ERROR\<close> and the message of the error marker, and the loop goes on to the next
  case.
\<close>

theorem both_markers_give_error:
  assumes "find_child tc ''failure'' = Some f"
    and "find_child tc ''error'' = Some e"
    and "get_float L tc ''time'' = Inr t"
  shows "cases_loop L (tc # rest) time_var acc =
           cases_loop L rest t
             (acc @ [\<lparr>name = get_str tc ''name'', classname = get_str tc ''classname'', time = t,
                      status = ''ERROR'', message = get_str e ''message''\<rparr>])"
  using assms by (simp add: and_then_def case_dict_def Let_def)

theorem both_markers_give_error_witness:
  "find_child ex_both ''failure'' = Some (Element ''failure'' [(''message'', ''expected 1'')] []) \<and>
   find_child ex_both ''error'' = Some (Element ''error'' [(''message'', ''boom'')] []) \<and>
   get_float ex_lib ex_both ''time'' = Inr (3 / 2) \<and>
   cases_loop ex_lib [ex_both] 0 [] =
     Inr (3 / 2, [\<lparr>name = ''t2'', classname = ''Core'', time = 3 / 2, status = ''ERROR'', message = ''boom''\<rparr>])"
proof -
  have a: "find_child ex_both ''failure'' = Some (Element ''failure'' [(''message'', ''expected 1'')] [])"
    by code_simp
  have b: "find_child ex_both ''error'' = Some (Element ''error'' [(''message'', ''boom'')] [])"
    by code_simp
  have c: "get_float ex_lib ex_both ''time'' = Inr (3 / 2)"
    by code_simp
  have d: "get_str ex_both ''name'' = ''t2''" "get_str ex_both ''classname'' = ''Core''"
    "get_str (Element ''error'' [(''message'', ''boom'')] []) ''message'' = ''boom''"
    by code_simp+
  show ?thesis
    using a b c both_markers_give_error [OF a b c, of "[]" 0 "[]"] by (simp add: d)
qed

section \<open>The harness\<close>

lemmas harness_defs = test_http_download_def test_multiple_downloads_def test_resume_def run_def
  popen_terminate_wait_def hprint_def remove_if_exists_def download_one_def urls_def Let_def

lemma files_hprint [simp]: "files (hprint l w) = files w"
  by (simp add: hprint_def)

lemma files_remove_if_exists [simp]: "files (remove_if_exists f w) = (files w)(f := None)"
  by (auto simp: remove_if_exists_def)

lemma test_http_download_returns: "\<exists>v. fst (test_http_download P w) = Returned v"
  by (simp add: test_http_download_def Let_def split: prod.splits)

lemma test_http_download_cleanup: "files (snd (test_http_download P w)) ''test_download.json'' = None"
  by (simp add: test_http_download_def Let_def split: prod.splits)

lemma test_multiple_downloads_returns: "\<exists>v. fst (test_multiple_downloads P w) = Returned v"
  by (simp add: test_multiple_downloads_def Let_def split: prod.splits)

lemma test_resume_cleanup:
  "test_resume P w = (Returned v, w') \<Longrightarrow> files w' ''resume_test.bin'' = None"
  by (auto simp: test_resume_def Let_def split: prod.splits popen_result.splits)

lemma test_resume_raised:
  "test_resume P w = (Raised e, w') \<Longrightarrow> files w' = files w"
  by (auto simp: test_resume_def Let_def popen_terminate_wait_def split: prod.splits popen_result.splits)

lemma run_frame:
  assumes "\<And>n cmd fs p. p \<noteq> last cmd \<Longrightarrow> snd (run_proc P n cmd fs) p = fs p"
    and "p \<noteq> last cmd"
  shows "files (snd (run P cmd w)) p = files w p"
proof -
  obtain r fs where rp: "run_proc P (launches w) cmd (files w) = (r, fs)"
    by (cases "run_proc P (launches w) cmd (files w)")
  have "fs p = files w p"
    using assms(1) [OF assms(2), of "launches w" "files w"] rp by simp
  then show ?thesis
    using rp by (simp add: run_def split: run_result.splits)
qed

lemma download_one_files:
  "\<exists>w2. files (snd (download_one P (url, g) (k, w))) = (files w2)(g := None) \<and>
        w2 = snd (run P [''./bin/falcon-cli'', url, ''-o'', g] (hprint (''  Downloading '' @ g @ ''...'') w))"
  by (simp add: download_one_def Let_def split_beta split: run_result.splits)

lemma download_one_removes: "files (snd (download_one P item st)) (snd item) = None"
proof -
  obtain url g where item: "item = (url, g)" by (cases item)
  obtain k w where st: "st = (k, w)" by (cases st)
  show ?thesis
    using download_one_files [of P url g k w] item st by auto
qed

lemma download_one_cleanup:
  assumes frame: "\<And>n cmd fs p. p \<noteq> last cmd \<Longrightarrow> snd (run_proc P n cmd fs) p = fs p"
    and "f = snd item \<or> files (snd st) f = None"
  shows "files (snd (download_one P item st)) f = None"
proof -
  obtain url g where item: "item = (url, g)" by (cases item)
  obtain k w where st: "st = (k, w)" by (cases st)
  let ?cmd = "[''./bin/falcon-cli'', url, ''-o'', g]"
  let ?w2 = "snd (run P ?cmd (hprint (''  Downloading '' @ g @ ''...'') w))"
  have fs: "files (snd (download_one P item st)) = (files ?w2)(g := None)"
    using download_one_files [of P url g k w] item st by simp
  show ?thesis
  proof (cases "f = g")
    case True
    then show ?thesis using fs by simp
  next
    case False
    then have "files ?w2 f = files w f"
      using run_frame [OF frame, of f ?cmd] by simp
    then show ?thesis using fs False assms(2) item st by simp
  qed
qed

lemma downloads_loop_cleanup:
  assumes frame: "\<And>n cmd fs p. p \<noteq> last cmd \<Longrightarrow> snd (run_proc P n cmd fs) p = fs p"
  shows "f \<in> snd ` set items \<or> files (snd st) f = None \<Longrightarrow>
         files (snd (downloads_loop P items st)) f = None"
proof (induction items arbitrary: st)
  case Nil
  then show ?case by simp
next
  case (Cons item items)
  have "f \<in> snd ` set items \<or> files (snd (download_one P item st)) f = None"
    using Cons.prems download_one_cleanup [OF frame, of f item st] by auto
  then show ?case
    using Cons.IH by simp
qed

lemma test_multiple_downloads_cleanup:
  assumes "\<And>n cmd fs p. p \<noteq> last cmd \<Longrightarrow> snd (run_proc P n cmd fs) p = fs p"
    and "f \<in> snd ` set urls"
  shows "files (snd (test_multiple_downloads P w)) f = None"
proof -
  let ?w1 = "hprint ''
Testing multiple downloads...'' w"
  have "files (snd (downloads_loop P urls (0, ?w1))) f = None"
    using downloads_loop_cleanup [OF assms(1), of f urls "(0, ?w1)"] assms(2) by simp
  then show ?thesis
    by (simp add: test_multiple_downloads_def Let_def split_beta)
qed

lemma summary_loop_three:
  "summary_loop [(n1, a), (n2, b), (n3, c)] (0, w) =
     ((if a then 1 else 0) + (if b then 1 else 0) + (if c then 1 else 0),
      w\<lparr>out := out w @
         [pad25 n1 @ '' '' @ (if a then utf8s [0x2705] @ '' PASS'' else utf8s [0x274C] @ '' FAIL''),
          pad25 n2 @ '' '' @ (if b then utf8s [0x2705] @ '' PASS'' else utf8s [0x274C] @ '' FAIL''),
          pad25 n3 @ '' '' @ (if c then utf8s [0x2705] @ '' PASS'' else utf8s [0x274C] @ '' FAIL'')]\<rparr>)"
  by (simp add: hprint_def Let_def)

lemma test_resume_popen_failure:
  assumes "\<And>n cmd fs. fst (popen_proc P n cmd fs) = Popen_failed e"
  shows "fst (test_resume P w) = Raised e"
proof -
  let ?w1 = "hprint ''
Testing resume functionality...'' w"
  let ?cmd = "[''./bin/falcon-cli'', ''https://httpbin.org/bytes/1024'', ''-o'', ''resume_test.bin'']"
  obtain fs where "popen_proc P (launches ?w1) ?cmd (files ?w1) = (Popen_failed e, fs)"
    using assms [of "launches ?w1" ?cmd "files ?w1"]
    by (cases "popen_proc P (launches ?w1) ?cmd (files ?w1)") simp
  then show ?thesis
    by (simp add: test_resume_def popen_terminate_wait_def Let_def)
qed

lemma run_tests_popen_failure:
  assumes "\<And>n cmd fs. fst (popen_proc P n cmd fs) = Popen_failed e"
  shows "fst (run_tests P w) = Raised e"
proof -
  obtain a wa where A: "test_http_download P w = (Returned a, wa)"
    using test_http_download_returns [of P w] by (cases "test_http_download P w") auto
  obtain b wb where B: "test_multiple_downloads P wa = (Returned b, wb)"
    using test_multiple_downloads_returns [of P wa] by (cases "test_multiple_downloads P wa") auto
  obtain wc where C: "test_resume P wb = (Raised e, wc)"
    using test_resume_popen_failure [OF assms, of wb] by (cases "test_resume P wb") auto
  show ?thesis
    by (simp add: run_tests_def call_def A B C)
qed

lemma ex_procs_verdicts:
  "fst (test_http_download ex_procs w) = Returned False"
  "fst (test_multiple_downloads ex_procs w) = Returned True"
  "fst (test_resume ex_procs w) = Returned True"
  by (simp_all add: harness_defs ex_procs_def)

text \<open>
  Claim C8: when a scenario returns, its destination files are gone, whatever its
  verdict. Each pass of the loop of the second scenario removes its own destination;
  that all three are absent at the end uses that a run of the executable writes no file
  but its destination.
\<close>

theorem destination_files_removed:
  assumes "\<And>n cmd fs p. p \<noteq> last cmd \<Longrightarrow> snd (run_proc P n cmd fs) p = fs p"
  shows "files (snd (test_http_download P w)) ''test_download.json'' = None \<and>
         (\<forall>item st. files (snd (download_one P item st)) (snd item) = None) \<and>
         (\<forall>f \<in> snd ` set urls. files (snd (test_multiple_downloads P w)) f = None) \<and>
         (\<forall>v w'. test_resume P w = (Returned v, w') \<longrightarrow> files w' ''resume_test.bin'' = None)"
proof (intro conjI ballI allI impI)
  show "files (snd (test_http_download P w)) ''test_download.json'' = None"
    by (rule test_http_download_cleanup)
next
  fix item st
  show "files (snd (download_one P item st)) (snd item) = None"
    by (rule download_one_removes)
next
  fix f
  assume "f \<in> snd ` set urls"
  with assms show "files (snd (test_multiple_downloads P w)) f = None"
    by (simp add: test_multiple_downloads_cleanup)
next
  fix v w'
  assume "test_resume P w = (Returned v, w')"
  then show "files w' ''resume_test.bin'' = None"
    by (rule test_resume_cleanup)
qed

theorem destination_files_removed_witness:
  "fst (test_http_download ex_procs ex_hworld) = Returned False \<and>
   files (snd (test_http_download ex_procs ex_hworld)) ''test_download.json'' = None \<and>
   fst (test_multiple_downloads ex_procs ex_hworld) = Returned True \<and>
   files (snd (test_multiple_downloads ex_procs ex_hworld)) ''uuid.json'' = None \<and>
   files (snd (test_multiple_downloads ex_procs ex_hworld)) ''ip.json'' = None \<and>
   files (snd (test_multiple_downloads ex_procs ex_hworld)) ''user-agent.json'' = None \<and>
   fst (test_resume ex_procs ex_hworld) = Returned True \<and>
   files (snd (test_resume ex_procs ex_hworld)) ''resume_test.bin'' = None"
proof -
  have frame: "\<And>n cmd fs p. p \<noteq> last cmd \<Longrightarrow> snd (run_proc ex_procs n cmd fs) p = fs p"
    by (simp add: ex_procs_def)
  have a: "fst (test_http_download ex_procs ex_hworld) = Returned False"
    by (simp add: harness_defs ex_procs_def ex_hworld_def)
  have b: "fst (test_multiple_downloads ex_procs ex_hworld) = Returned True"
    by (simp add: harness_defs ex_procs_def ex_hworld_def)
  have c: "fst (test_resume ex_procs ex_hworld) = Returned True"
    by (simp add: harness_defs ex_procs_def ex_hworld_def)
  note removed = destination_files_removed [OF frame, of ex_hworld]
  have r: "files (snd (test_resume ex_procs ex_hworld)) ''resume_test.bin'' = None"
    using removed c by (metis prod.collapse)
  show ?thesis
    using a b c r removed by (simp add: urls_def)
qed

text \<open>
  Claim C9: whatever the three verdicts are, the harness runs the scenarios in the
  order of the source, each in the world the one before left, prints one line for each
  verdict, and ends with status 0 exactly when all three passed.
\<close>

theorem all_scenarios_run_and_exit_status:
  assumes "startup w = Inr w0"
    and "test_http_download P w0 = (Returned a, wa)"
    and "test_multiple_downloads P wa = (Returned b, wb)"
    and "test_resume P wb = (Returned c, wc)"
  shows "\<exists>w'. test_download_integration_main P w = (Returned (if a \<and> b \<and> c then 0 else 1), w') \<and>
           (exit_status (fst (test_download_integration_main P w)) = Some 0 \<longleftrightarrow> a \<and> b \<and> c) \<and>
           files w' = files wc \<and> launches w' = launches wc \<and>
           out w' = out wc @
             [''
=== Test Summary ==='',
              pad25 ''Basic HTTP Download'' @ '' '' @
                (if a then utf8s [0x2705] @ '' PASS'' else utf8s [0x274C] @ '' FAIL''),
              pad25 ''Multiple Downloads'' @ '' '' @
                (if b then utf8s [0x2705] @ '' PASS'' else utf8s [0x274C] @ '' FAIL''),
              pad25 ''Resume Functionality'' @ '' '' @
                (if c then utf8s [0x2705] @ '' PASS'' else utf8s [0x274C] @ '' FAIL''),
              ''
Overall: '' @ str_int ((if a then 1 else 0) + (if b then 1 else 0) + (if c then 1 else 0)) @
                ''/'' @ str_int 3 @ '' tests passed'',
              (if a \<and> b \<and> c
               then ''
'' @ utf8s [0x1F389] @ '' All tests passed!''
               else ''
'' @ utf8s [0x26A0, 0xFE0F] @ ''  Some tests failed'')]"
  using assms
  by (cases a; cases b; cases c)
     (simp_all add: test_download_integration_main_def run_tests_def call_def summary_loop_three
        hprint_def exit_status_def Let_def del: summary_loop.simps)

text \<open>The first scenario fails, the other two pass: all three are reported, the status is 1.\<close>

theorem all_scenarios_run_and_exit_status_witness:
  "startup ex_hworld = Inr (hprint ''=== Falcon Downloader Integration Tests ===
'' ex_hworld) \<and>
   (\<exists>wa wb wc.
      test_http_download ex_procs (hprint ''=== Falcon Downloader Integration Tests ===
'' ex_hworld) = (Returned False, wa) \<and>
      test_multiple_downloads ex_procs wa = (Returned True, wb) \<and>
      test_resume ex_procs wb = (Returned True, wc)) \<and>
   fst (test_download_integration_main ex_procs ex_hworld) = Returned 1 \<and>
   exit_status (fst (test_download_integration_main ex_procs ex_hworld)) = Some 1"
proof -
  let ?w0 = "hprint ''=== Falcon Downloader Integration Tests ===
'' ex_hworld"
  let ?wa = "snd (test_http_download ex_procs ?w0)"
  let ?wb = "snd (test_multiple_downloads ex_procs ?wa)"
  let ?wc = "snd (test_resume ex_procs ?wb)"
  have s: "startup ex_hworld = Inr ?w0"
    by (simp add: startup_def ex_hworld_def hprint_def Let_def)
  have A: "test_http_download ex_procs ?w0 = (Returned False, ?wa)"
    by (simp add: prod_eq_iff ex_procs_verdicts)
  have B: "test_multiple_downloads ex_procs ?wa = (Returned True, ?wb)"
    by (simp add: prod_eq_iff ex_procs_verdicts)
  have C: "test_resume ex_procs ?wb = (Returned True, ?wc)"
    by (simp add: prod_eq_iff ex_procs_verdicts)
  from all_scenarios_run_and_exit_status [OF s A B C]
  obtain w' where "test_download_integration_main ex_procs ex_hworld = (Returned 1, w')"
    by auto
  then have m: "fst (test_download_integration_main ex_procs ex_hworld) = Returned 1"
    by simp
  have e: "exit_status (fst (test_download_integration_main ex_procs ex_hworld)) = Some 1"
    by (simp add: m exit_status_def)
  show ?thesis
    using s A B C m e by blast
qed

text \<open>
  Claim C4: a process that cannot be started gives a failed verdict and never an
  unhandled exception. In \<open>test_resume\<close> the first launch stands outside the \<open>try\<close>:
  with an executable that cannot be started the exception leaves the scenario and the
  harness, which ends with a traceback and status 1.
\<close>

theorem launch_failure_escapes_test_resume:
  "fst (test_resume ex_noexec ex_hworld) = Raised ''[Errno 13] Permission denied: ./bin/falcon-cli'' \<and>
   fst (test_download_integration_main ex_noexec ex_hworld) =
     Raised ''[Errno 13] Permission denied: ./bin/falcon-cli'' \<and>
   exit_status (fst (test_download_integration_main ex_noexec ex_hworld)) = Some 1"
proof -
  have p: "\<And>n cmd fs. fst (popen_proc ex_noexec n cmd fs) =
             Popen_failed ''[Errno 13] Permission denied: ./bin/falcon-cli''"
    by (simp add: ex_noexec_def)
  have s: "startup ex_hworld = Inr (hprint ''=== Falcon Downloader Integration Tests ===
'' ex_hworld)"
    by (simp add: startup_def ex_hworld_def hprint_def Let_def)
  show ?thesis
    using test_resume_popen_failure [OF p] run_tests_popen_failure [OF p]
    by (simp add: test_download_integration_main_def s exit_status_def)
qed

end
